theory Spec2Isabelle
  imports Complex_Main "HOL-Library.Log_Nat"
begin

section \<open>JavaScript values used by the code\<close>

text \<open>
  A JavaScript number is an IEEE-754 double: a finite value, one of the two infinities, or
  NaN. A finite value is kept as the rational it denotes, and every arithmetic result is
  rounded to the nearest double, ties to even, or to an infinity when it is out of range.
  Negative zero is not distinguished from zero.
\<close>

datatype jsnum = Fin rat | PosInf | NegInf | NaN

text \<open>
  The binary exponent of a positive rational \<open>r\<close>: the integer \<open>e\<close> with
  \<open>2^e \<le> r < 2^(e+1)\<close>, computed from the bit lengths of the integer part of \<open>r\<close>
  (when \<open>1 \<le> r\<close>) or of \<open>1 / r\<close>.
\<close>

definition binary_exponent :: "rat \<Rightarrow> int" where
  "binary_exponent r =
     (if 1 \<le> r then int (floorlog 2 (nat \<lfloor>r\<rfloor>)) - 1
      else - int (floorlog 2 (nat (\<lceil>1 / r\<rceil> - 1))))"

text \<open>Rounding to the nearest integer, a tie going to the even one.\<close>

definition round_half_even :: "rat \<Rightarrow> int" where
  "round_half_even z =
     (let f = \<lfloor>z\<rfloor>; d = z - of_int f
      in if d < 1 / 2 then f
         else if 1 / 2 < d then f + 1
         else if even f then f else f + 1)"

text \<open>
  The nearest double of a rational: a double has 53 significant bits, so the doubles
  around \<open>r\<close> are the multiples of \<open>2^(e - 52)\<close>, \<open>e\<close> the binary exponent of \<open>\<bar>r\<bar>\<close>
  and at least \<open>-1022\<close> (below it the doubles are subnormal and evenly spaced).
\<close>

definition round_double :: "rat \<Rightarrow> rat" where
  "round_double r =
     (if r = 0 then 0
      else let u = 2 powi (max (- 1022) (binary_exponent \<bar>r\<bar>) - 52)
           in of_int (round_half_even (r / u)) * u)"

text \<open>
  The least magnitude that rounds to an infinity: \<open>2^1024 - 2^970\<close>, half an ulp above
  the largest finite double.
\<close>

definition overflow_bound :: rat where
  "overflow_bound = 2 ^ 1024 - 2 ^ 970"

text \<open>The number that an exact result becomes.\<close>

definition number_of :: "rat \<Rightarrow> jsnum" where
  "number_of r =
     (if overflow_bound \<le> r then PosInf
      else if r \<le> - overflow_bound then NegInf
      else Fin (round_double r))"

text \<open>\<open>a + b\<close> on numbers.\<close>

fun js_add :: "jsnum \<Rightarrow> jsnum \<Rightarrow> jsnum" where
  "js_add NaN _ = NaN"
| "js_add _ NaN = NaN"
| "js_add (Fin a) (Fin b) = number_of (a + b)"
| "js_add PosInf NegInf = NaN"
| "js_add NegInf PosInf = NaN"
| "js_add PosInf _ = PosInf"
| "js_add _ PosInf = PosInf"
| "js_add NegInf _ = NegInf"
| "js_add _ NegInf = NegInf"

text \<open>\<open>a / 1000\<close>: the only division the code performs is by this positive literal.\<close>

fun js_div_1000 :: "jsnum \<Rightarrow> jsnum" where
  "js_div_1000 (Fin a) = number_of (a / 1000)"
| "js_div_1000 x = x"

text \<open>\<open>Math.floor\<close>.\<close>

fun Math_floor :: "jsnum \<Rightarrow> jsnum" where
  "Math_floor (Fin a) = Fin (of_int \<lfloor>a\<rfloor>)"
| "Math_floor x = x"

definition isNaN :: "jsnum \<Rightarrow> bool" where
  "isNaN x = (x = NaN)"

text \<open>
  A value that is a number or \<open>undefined\<close> (\<open>None\<close>), and its conversion to a number
  in an arithmetic expression: \<open>undefined\<close> becomes NaN.
\<close>

definition ToNumber :: "jsnum option \<Rightarrow> jsnum" where
  "ToNumber v = (case v of None \<Rightarrow> NaN | Some x \<Rightarrow> x)"

text \<open>How a template literal renders a string that may be \<open>undefined\<close>.\<close>

definition template :: "string option \<Rightarrow> string" where
  "template v = (case v of None \<Rightarrow> ''undefined'' | Some s \<Rightarrow> s)"

subsection \<open>Digits and \<open>parseInt\<close>\<close>

definition isDigit :: "char \<Rightarrow> bool" where
  "isDigit c = (c \<in> set ''0123456789'')"

definition digit_value :: "char \<Rightarrow> nat" where
  "digit_value c = of_char c - 48"

definition decimal_value :: "string \<Rightarrow> nat" where
  "decimal_value s = foldl (\<lambda>n c. 10 * n + digit_value c) 0 s"

definition isWhiteSpace :: "char \<Rightarrow> bool" where
  "isWhiteSpace c = (c \<in> set [CHR '' '', CHR 0x09, CHR 0x0A, CHR 0x0B, CHR 0x0C, CHR 0x0D])"

text \<open>
  \<open>parseInt(s, 10)\<close>: leading white space is skipped, an optional sign is read, then the
  longest run of decimal digits; with no digit the result is NaN. The integer read is
  converted to a number: it is rounded to the nearest double, and a run of digits beyond
  the range of a double gives Infinity.
\<close>

definition parseInt :: "string \<Rightarrow> jsnum" where
  "parseInt s =
     (let t = dropWhile isWhiteSpace s;
          neg = (t \<noteq> [] \<and> hd t = CHR ''-'');
          u = (if t \<noteq> [] \<and> (hd t = CHR ''-'' \<or> hd t = CHR ''+'') then tl t else t);
          ds = takeWhile isDigit u
      in if ds = [] then NaN
         else number_of ((if neg then - 1 else 1) * of_nat (decimal_value ds)))"

section \<open>Errors\<close>

text \<open>
  The body of an error response, seen through the two things the code does with it:
  \<open>Array.isArray\<close>, then \<open>join\<close> or the string conversion of a template literal. An
  array is given by the string conversions of its elements, any other value by its own.
\<close>

datatype body = BArray "string list" | BOther string

record response =
  data :: body
  status :: int

text \<open>
  Everything the code throws or lets through. \<open>Error\<close> is the plain JavaScript error
  with its message; the four registry errors carry the message their constructors build;
  \<open>AxiosError\<close> is an error of the HTTP client, with the response when the server
  answered.
\<close>

datatype error =
    Error string
  | AggregateError "error list" string
  | AxiosError "response option"
  | HiveAuthorizationError string
  | HivePublicKeyValidationError string
  | HivePublicKeyNotFoundError string
  | HivePublicKeyDeletedError string

text \<open>The class of a thrown value, as \<open>instanceof\<close> tells it.\<close>

datatype error_class =
    CError | CAggregateError | CAxiosError | CHiveAuthorizationError
  | CHivePublicKeyValidationError | CHivePublicKeyNotFoundError | CHivePublicKeyDeletedError

fun class_of :: "error \<Rightarrow> error_class" where
  "class_of (Error _) = CError"
| "class_of (AggregateError _ _) = CAggregateError"
| "class_of (AxiosError _) = CAxiosError"
| "class_of (HiveAuthorizationError _) = CHiveAuthorizationError"
| "class_of (HivePublicKeyValidationError _) = CHivePublicKeyValidationError"
| "class_of (HivePublicKeyNotFoundError _) = CHivePublicKeyNotFoundError"
| "class_of (HivePublicKeyDeletedError _) = CHivePublicKeyDeletedError"

section \<open>Validation utilities\<close>

text \<open>\<open>/^\d+$/.test(value)\<close>: one or more decimal digits and nothing else.\<close>

definition isNumeric :: "string \<Rightarrow> bool" where
  "isNumeric v = (v \<noteq> [] \<and> list_all isDigit v)"

text \<open>
  The duration parser \<open>ms\<close> is a library outside the repository and is a parameter: for a
  string it returns a number of milliseconds or \<open>undefined\<close>, or throws. The clock
  \<open>Date.now()\<close> is the parameter \<open>now\<close>, a whole number of milliseconds.
\<close>

type_synonym duration_parser = "string \<Rightarrow> error + jsnum option"

definition checkExpiration :: "duration_parser \<Rightarrow> int \<Rightarrow> string \<Rightarrow> error + jsnum" where
  "checkExpiration ms now expiration =
     (case (if isNumeric expiration then Inr (parseInt expiration)
            else (case ms expiration of
                    Inl e \<Rightarrow> Inl e
                  | Inr d \<Rightarrow> Inr (Math_floor (js_div_1000 (js_add (Fin (of_int now)) (ToNumber d))))))
      of Inl e \<Rightarrow> Inl e
       | Inr expn \<Rightarrow>
           if isNaN expn then Inl (Error (''Invalid expiration: '' @ expiration))
           else Inr expn)"

definition checkExpiresIn :: "duration_parser \<Rightarrow> string \<Rightarrow> error + jsnum" where
  "checkExpiresIn ms expiration =
     (case (if isNumeric expiration then Inr (parseInt expiration)
            else (case ms expiration of
                    Inl e \<Rightarrow> Inl e
                  | Inr d \<Rightarrow> Inr (Math_floor (js_div_1000 (ToNumber d)))))
      of Inl e \<Rightarrow> Inl e
       | Inr expn \<Rightarrow>
           if isNaN expn then Inl (Error (''Invalid expiresIn: '' @ expiration))
           else Inr expn)"

text \<open>
  JSON values, and an object as the list of its properties in the order of the literal.
\<close>

datatype json = JStr string | JNum jsnum | JArr "json list" | JObj "(string \<times> json) list"

type_synonym object = "(string \<times> json) list"

definition strings :: "string list \<Rightarrow> json" where
  "strings xs = JArr (map JStr xs)"

text \<open>
  \<open>checkManifestOrArray\<close>: an absent \<open>regexes\<close> argument is \<open>None\<close>; an array is
  truthy even when it is empty.
\<close>

definition checkManifestOrArray :: "string list \<Rightarrow> string list option \<Rightarrow> error + object" where
  "checkManifestOrArray manifest regexes =
     (if length manifest = 0 \<and> (case regexes of None \<Rightarrow> False | Some r \<Rightarrow> length r > 0)
        then Inr [(''man'', strings manifest),
                  (''regexes'', strings (case regexes of None \<Rightarrow> [] | Some r \<Rightarrow> r))]
      else if length manifest > 0 \<and> regexes = None
        then Inr [(''man'', strings manifest)]
      else Inl (Error ''Only one of manifest or regex list can be defined.''))"

definition checkEndpoint :: "string \<Rightarrow> error + string" where
  "checkEndpoint endpoint =
     (if endpoint = ''prod'' \<or> endpoint = ''test'' then Inr endpoint
      else Inl (Error (''Invalid endpoint: '' @ endpoint)))"

section \<open>The signing library\<close>

text \<open>
  A token before its compact serialisation: the header and the body, both JSON objects.
\<close>

record jwt =
  header :: object
  payload :: object

text \<open>The \<open>expiresIn\<close> argument, of type \<open>string | number\<close>.\<close>

datatype expires = ExpStr string | ExpNum jsnum

record SignOptions =
  algorithm :: string
  keyid :: string
  expiresIn :: expires

definition isInteger :: "jsnum \<Rightarrow> bool" where
  "isInteger x = (case x of Fin r \<Rightarrow> r = of_int \<lfloor>r\<rfloor> | _ \<Rightarrow> False)"

definition expiresIn_message :: string where
  "expiresIn_message =
     [CHR 0x22] @ ''expiresIn'' @ [CHR 0x22] @
     '' should be a number of seconds or string representing a timespan''"

definition timespan_message :: string where
  "timespan_message =
     expiresIn_message @ '' eg: '' @ [CHR 0x22] @ ''1d'' @ [CHR 0x22] @ '', '' @
     [CHR 0x22] @ ''20h'' @ [CHR 0x22] @ '', 60''"

text \<open>
  The serialisation and RS256 signature of a token under a private key is a parameter
  \<open>jws\<close>: it returns the compact string, or throws when the key is not usable.
\<close>

type_synonym signer = "string \<Rightarrow> jwt \<Rightarrow> error + string"

text \<open>
  Modelled from the spec: \<open>sign\<close> of the library \<open>jsonwebtoken\<close>, which is imported and
  not part of the repository. As the specification has it, signing is over the header
  \<open>{alg, kid}\<close> (the library adds \<open>typ: JWT\<close>) and the body made of the claims, then
  \<open>iat\<close>, the clock in whole seconds, then \<open>exp\<close>, \<open>iat\<close> plus the resolved life time.
  The library accepts for \<open>expiresIn\<close> an integer number of seconds or a non-empty
  string, which it hands to the duration parser and reads as milliseconds.
\<close>

definition jwt_sign ::
  "duration_parser \<Rightarrow> signer \<Rightarrow> int \<Rightarrow> object \<Rightarrow> string \<Rightarrow> SignOptions \<Rightarrow> error + string" where
  "jwt_sign ms jws now claims key options =
     (if \<not> (case expiresIn options of ExpNum n \<Rightarrow> isInteger n | ExpStr s \<Rightarrow> s \<noteq> [])
        then Inl (Error expiresIn_message)
      else
        let timestamp = Math_floor (js_div_1000 (Fin (of_int now))) in
        case (case expiresIn options of
                ExpNum n \<Rightarrow> Inr (Some (js_add timestamp n))
              | ExpStr s \<Rightarrow>
                  (case ms s of
                     Inl e \<Rightarrow> Inl e
                   | Inr None \<Rightarrow> Inr None
                   | Inr (Some d) \<Rightarrow> Inr (Some (Math_floor (js_add timestamp (js_div_1000 d))))))
        of Inl e \<Rightarrow> Inl e
         | Inr None \<Rightarrow> Inl (Error timespan_message)
         | Inr (Some expn) \<Rightarrow>
             jws key
               \<lparr>header = [(''alg'', JStr (algorithm options)), (''typ'', JStr ''JWT''),
                          (''kid'', JStr (keyid options))],
                payload = claims @ [(''iat'', JNum timestamp), (''exp'', JNum expn)]\<rparr>)"

section \<open>The token signer \<open>HiveJwtCreator\<close>\<close>

record HiveJwtCreator =
  partnerId :: string
  privateKey :: string

text \<open>
  \<open>HiveJwtCreator.create\<close>: reading the key file is the parameter \<open>readFile\<close>; a failure
  is wrapped in an \<open>AggregateError\<close> that names the file.
\<close>

type_synonym file_reader = "string \<Rightarrow> error + string"

definition HiveJwtCreator_create :: "file_reader \<Rightarrow> string \<Rightarrow> string \<Rightarrow> error + HiveJwtCreator" where
  "HiveJwtCreator_create readFile partner privateKeyFilename =
     (case readFile privateKeyFilename of
        Inr key \<Rightarrow> Inr \<lparr>partnerId = partner, privateKey = key\<rparr>
      | Inl ex \<Rightarrow> Inl (AggregateError [ex] (''Could not read file '' @ privateKeyFilename)))"

definition sign ::
  "duration_parser \<Rightarrow> signer \<Rightarrow> int \<Rightarrow> HiveJwtCreator \<Rightarrow>
   string \<Rightarrow> string \<Rightarrow> string \<Rightarrow> string list \<Rightarrow> expires \<Rightarrow> error + string" where
  "sign ms jws now this keyId customerId videoId manifests expires_in =
     (let data = [(''iss'', JStr (partnerId this)),
                  (''sub'', JStr videoId),
                  (''ver'', JStr ''1.0''),
                  (''aud'', JStr ''https://hivestreaming.com''),
                  (''cid'', JStr customerId),
                  (''man'', strings manifests)]
      in jwt_sign ms jws now data (privateKey this)
           \<lparr>algorithm = ''RS256'', keyid = keyId, expiresIn = expires_in\<rparr>)"

text \<open>
  \<open>signReporting\<close>: the parameter \<open>endpoint\<close> has the default \<open>'prod'\<close>, taken when the
  argument is absent (\<open>None\<close>).
\<close>

definition signReporting ::
  "duration_parser \<Rightarrow> signer \<Rightarrow> int \<Rightarrow> HiveJwtCreator \<Rightarrow>
   string \<Rightarrow> string \<Rightarrow> string \<Rightarrow> expires \<Rightarrow> string option \<Rightarrow> error + string" where
  "signReporting ms jws now this keyId customerId videoId expires_in endpoint_arg =
     (let endpoint = (case endpoint_arg of None \<Rightarrow> ''prod'' | Some e \<Rightarrow> e);
          data = [(''iss'', JStr (partnerId this)),
                  (''sub'', JStr videoId),
                  (''ver'', JStr ''1.0''),
                  (''aud'', JStr ''https://hivestreaming.com''),
                  (''cid'', JStr customerId),
                  (''act'', JStr ''reporting'')]
      in case jwt_sign ms jws now data (privateKey this)
                \<lparr>algorithm = ''RS256'', keyid = keyId, expiresIn = expires_in\<rparr> of
           Inl e \<Rightarrow> Inl e
         | Inr token \<Rightarrow>
             Inr (''https://api'' @ (if endpoint = ''prod'' then [] else ''-'' @ endpoint) @
                  ''.hivestreaming.com/v1/url-redirect/adminportal-jwt/'' @ token))"

section \<open>The registry client \<open>HivePublicKeyServiceClient\<close>\<close>

definition join :: "string \<Rightarrow> string list \<Rightarrow> string" where
  "join sep xs = (case xs of [] \<Rightarrow> [] | y # ys \<Rightarrow> foldl (\<lambda>acc z. acc @ sep @ z) y ys)"

definition new_HiveAuthorizationError :: error where
  "new_HiveAuthorizationError =
     HiveAuthorizationError ''Authorization required: missing or invalid partner token''"

definition new_HivePublicKeyValidationError :: "body \<Rightarrow> error" where
  "new_HivePublicKeyValidationError errors =
     HivePublicKeyValidationError
       (''Public key validation error: '' @
        (case errors of BArray xs \<Rightarrow> join ''; '' xs | BOther s \<Rightarrow> s))"

definition new_HivePublicKeyNotFoundError :: "string \<Rightarrow> string option \<Rightarrow> error" where
  "new_HivePublicKeyNotFoundError partner keyId =
     HivePublicKeyNotFoundError (''Public key not found: '' @ partner @ ''/'' @ template keyId)"

definition new_HivePublicKeyDeletedError :: "string \<Rightarrow> string option \<Rightarrow> error" where
  "new_HivePublicKeyDeletedError partner keyId =
     HivePublicKeyDeletedError
       (''Public key has been deleted: '' @ partner @ ''/'' @ template keyId)"

text \<open>
  The HTTP client is a parameter: each method returns the body of a successful response
  or throws. The base URL and the headers fixed by the constructor are part of it.
\<close>

record Axios =
  axios_get :: "string \<Rightarrow> error + json"
  axios_post :: "string \<Rightarrow> object \<Rightarrow> error + json"
  axios_delete :: "string \<Rightarrow> error + json"

record HivePublicKeyServiceClient =
  client :: Axios
  clientPartnerId :: string

text \<open>
  \<open>axiosErrorHandler\<close> never returns: the value of the model is the error it throws.
\<close>

definition axiosErrorHandler :: "HivePublicKeyServiceClient \<Rightarrow> error \<Rightarrow> string option \<Rightarrow> error" where
  "axiosErrorHandler this err keyId =
     (case err of
        AxiosError (Some r) \<Rightarrow>
          if status r = 400 then new_HivePublicKeyValidationError (data r)
          else if status r = 403 then new_HiveAuthorizationError
          else if status r = 404 then new_HivePublicKeyNotFoundError (clientPartnerId this) keyId
          else if status r = 410 then new_HivePublicKeyDeletedError (clientPartnerId this) keyId
          else err
      | _ \<Rightarrow> err)"

definition get :: "HivePublicKeyServiceClient \<Rightarrow> string \<Rightarrow> error + json" where
  "get this keyId =
     (case axios_get (client this) (''/publickey/'' @ clientPartnerId this @ ''/'' @ keyId) of
        Inr res \<Rightarrow> Inr res
      | Inl err \<Rightarrow> Inl (axiosErrorHandler this err (Some keyId)))"

definition list_keys :: "HivePublicKeyServiceClient \<Rightarrow> bool \<Rightarrow> error + json" where
  "list_keys this includeDeleted =
     (case axios_get (client this)
             (''/publickey/'' @ clientPartnerId this @ ''?includeDeleted='' @
              (if includeDeleted then ''true'' else ''false'')) of
        Inr res \<Rightarrow> Inr res
      | Inl err \<Rightarrow> Inl (axiosErrorHandler this err None))"

definition create ::
  "duration_parser \<Rightarrow> int \<Rightarrow> HivePublicKeyServiceClient \<Rightarrow>
   string \<Rightarrow> string \<Rightarrow> string \<Rightarrow> string \<Rightarrow> expires \<Rightarrow> error + unit" where
  "create ms now this partner keyId exponent modulus expiration =
     (case (case (case expiration of ExpStr s \<Rightarrow> checkExpiration ms now s | ExpNum n \<Rightarrow> Inr n) of
              Inl e \<Rightarrow> Inl e
            | Inr expn \<Rightarrow>
                axios_post (client this) ''/publickey''
                  [(''partnerId'', JStr partner), (''keyId'', JStr keyId),
                   (''exponent'', JStr exponent), (''modulus'', JStr modulus),
                   (''expiration'', JNum expn)])
      of Inr _ \<Rightarrow> Inr ()
       | Inl err \<Rightarrow> Inl (axiosErrorHandler this err (Some keyId)))"

definition delete :: "HivePublicKeyServiceClient \<Rightarrow> string \<Rightarrow> error + unit" where
  "delete this keyId =
     (case axios_delete (client this) (''/publickey/'' @ clientPartnerId this @ ''/'' @ keyId) of
        Inr _ \<Rightarrow> Inr ()
      | Inl err \<Rightarrow> Inl (axiosErrorHandler this err None))"

section \<open>The command line\<close>

text \<open>
  The handler of \<open>create-jwt\<close> calls
  \<open>jwtCreator.sign(keyId, customerId, videoId, manifest, expiresIn, eventName, regexes)\<close>.
  A JavaScript call binds the arguments to the declared parameters by position; \<open>sign\<close>
  declares five, so the sixth and the seventh argument are bound to none.
\<close>

definition create_jwt ::
  "file_reader \<Rightarrow> duration_parser \<Rightarrow> signer \<Rightarrow> int \<Rightarrow>
   string \<Rightarrow> string \<Rightarrow> string \<Rightarrow> string \<Rightarrow> string \<Rightarrow> string list \<Rightarrow> string \<Rightarrow>
   string option \<Rightarrow> string list option \<Rightarrow> error + string" where
  "create_jwt readFile ms jws now partner file keyId customerId videoId manifest expires_in
     eventName regexes =
     (case HiveJwtCreator_create readFile partner file of
        Inl e \<Rightarrow> Inl e
      | Inr jwtCreator \<Rightarrow>
          sign ms jws now jwtCreator keyId customerId videoId manifest (ExpStr expires_in))"

text \<open>The handler of \<open>reporting-url\<close>.\<close>

definition reporting_url ::
  "file_reader \<Rightarrow> duration_parser \<Rightarrow> signer \<Rightarrow> int \<Rightarrow>
   string \<Rightarrow> string \<Rightarrow> string \<Rightarrow> string \<Rightarrow> string \<Rightarrow> string \<Rightarrow> string \<Rightarrow> error + string" where
  "reporting_url readFile ms jws now partner file keyId customerId videoId endpoint expires_in =
     (case checkExpiresIn ms expires_in of
        Inl e \<Rightarrow> Inl e
      | Inr expn \<Rightarrow>
          (case HiveJwtCreator_create readFile partner file of
             Inl e \<Rightarrow> Inl e
           | Inr jwtCreator \<Rightarrow>
               (case checkEndpoint endpoint of
                  Inl e \<Rightarrow> Inl e
                | Inr ep \<Rightarrow>
                    signReporting ms jws now jwtCreator keyId customerId videoId
                      (ExpNum expn) (Some ep))))"

section \<open>The error taxonomy of the specification\<close>

text \<open>
  The table of the specification, written on its own to compare the client with it: the
  error class that a failure of the transport is mapped to, or \<open>None\<close> when the failure
  is to be propagated as it is.
\<close>

definition mapped_class :: "error \<Rightarrow> error_class option" where
  "mapped_class err =
     (case err of
        AxiosError (Some r) \<Rightarrow>
          if status r = 400 then Some CHivePublicKeyValidationError
          else if status r = 403 then Some CHiveAuthorizationError
          else if status r = 404 then Some CHivePublicKeyNotFoundError
          else if status r = 410 then Some CHivePublicKeyDeletedError
          else None
      | _ \<Rightarrow> None)"

text \<open>
  An operation whose transport failed with \<open>err\<close> follows the table when it throws an
  error of the mapped class, or \<open>err\<close> itself where the table maps nothing.
\<close>

definition throws_as :: "error \<Rightarrow> error + 'a \<Rightarrow> bool" where
  "throws_as err res =
     (case mapped_class err of
        Some c \<Rightarrow> (case res of Inl e \<Rightarrow> class_of e = c | Inr _ \<Rightarrow> False)
      | None \<Rightarrow> res = Inl err)"

section \<open>Collaborators for concrete runs\<close>

text \<open>
  Stand-ins for the parameters, used to run the model on concrete inputs: a duration parser
  that knows \<open>2h\<close> and returns \<open>undefined\<close> for every other string, a signer that returns
  the key followed by the property names of the header and of the body, a file reader that finds a key in every file, and an HTTP client
  whose every request fails with a given error.
\<close>

definition sample_ms :: duration_parser where
  "sample_ms s = (if s = ''2h'' then Inr (Some (Fin 7200000)) else Inr None)"

definition sample_jws :: signer where
  "sample_jws key token =
     Inr (key @ ''.'' @ join '','' (map fst (header token)) @ ''.'' @
          join '','' (map fst (payload token)))"

definition sample_readFile :: file_reader where
  "sample_readFile name = Inr ''KEY''"

definition failing_axios :: "error \<Rightarrow> Axios" where
  "failing_axios e =
     \<lparr>axios_get = (\<lambda>url. Inl e), axios_post = (\<lambda>url body. Inl e), axios_delete = (\<lambda>url. Inl e)\<rparr>"

definition sample_creator :: HiveJwtCreator where
  "sample_creator = \<lparr>partnerId = ''acme'', privateKey = ''KEY''\<rparr>"

definition failing_client :: "error \<Rightarrow> HivePublicKeyServiceClient" where
  "failing_client e = \<lparr>client = failing_axios e, clientPartnerId = ''acme''\<rparr>"



section \<open>Facts about rounding\<close>

lemma pow2_neg: "(2::rat) powi (- int k) = 1 / 2 ^ k"
  by (simp add: power_int_minus field_simps)

lemma binary_exponent_lower:
  assumes "0 < r"
  shows "2 powi (binary_exponent r) \<le> r"
proof (cases "1 \<le> r")
  case True
  define n where "n = nat \<lfloor>r\<rfloor>"
  have n: "0 < n" using True by (simp add: n_def)
  have fl: "0 < floorlog 2 n" using n by (simp add: floorlog_def)
  have "(2::nat) ^ (floorlog 2 n - 1) \<le> n" using floorlog_bounds [OF n] by simp
  then have "(2::rat) ^ (floorlog 2 n - 1) \<le> of_nat n"
    by (metis of_nat_le_iff of_nat_numeral of_nat_power)
  also have "\<dots> \<le> r" using True by (simp add: n_def)
  finally have "(2::rat) ^ (floorlog 2 n - 1) \<le> r" .
  moreover have "binary_exponent r = int (floorlog 2 n - 1)"
    using True fl by (simp add: binary_exponent_def n_def)
  ultimately show ?thesis by simp
next
  case False
  define k where "k = floorlog 2 (nat (\<lceil>1 / r\<rceil> - 1))"
  have "1 < 1 / r" using False assms by simp
  then have c: "2 \<le> \<lceil>1 / r\<rceil>" by linarith
  then have m: "0 < nat (\<lceil>1 / r\<rceil> - 1)" by simp
  have "nat (\<lceil>1 / r\<rceil> - 1) < (2::nat) ^ k"
    using floorlog_bounds [OF m, of 2] by (simp add: k_def)
  then have "int (nat (\<lceil>1 / r\<rceil> - 1)) < int ((2::nat) ^ k)" by (simp only: of_nat_less_iff)
  then have "\<lceil>1 / r\<rceil> - 1 < 2 ^ k" using c assms by simp
  then have "\<lceil>1 / r\<rceil> \<le> 2 ^ k" by simp
  then have "1 / r \<le> 2 ^ k" by (simp add: ceiling_le_iff)
  then have "1 / 2 ^ k \<le> r" using assms by (simp add: field_simps)
  moreover have "binary_exponent r = - int k"
    using False by (simp add: binary_exponent_def k_def)
  ultimately show ?thesis by (simp add: pow2_neg)
qed

lemma binary_exponent_upper:
  assumes "0 < r"
  shows "r < 2 powi (binary_exponent r + 1)"
proof (cases "1 \<le> r")
  case True
  define n where "n = nat \<lfloor>r\<rfloor>"
  have n: "0 < n" using True by (simp add: n_def)
  have "n < 2 ^ floorlog 2 n" using floorlog_bounds [OF n] by simp
  then have "\<lfloor>r\<rfloor> < 2 ^ floorlog 2 n" using True by (simp add: n_def nat_less_iff)
  then have "r < 2 ^ floorlog 2 n" by (simp add: floor_less_iff)
  moreover have "binary_exponent r + 1 = int (floorlog 2 n)"
    using True by (simp add: binary_exponent_def n_def)
  ultimately show ?thesis by simp
next
  case False
  define k where "k = floorlog 2 (nat (\<lceil>1 / r\<rceil> - 1))"
  have "1 < 1 / r" using False assms by simp
  then have c: "2 \<le> \<lceil>1 / r\<rceil>" by linarith
  then have m: "0 < nat (\<lceil>1 / r\<rceil> - 1)" by simp
  have k: "0 < k" using m by (simp add: k_def floorlog_def)
  have "(2::nat) ^ (k - 1) \<le> nat (\<lceil>1 / r\<rceil> - 1)"
    using floorlog_bounds [OF m, of 2] by (simp add: k_def)
  then have "int ((2::nat) ^ (k - 1)) \<le> int (nat (\<lceil>1 / r\<rceil> - 1))" by (simp only: of_nat_le_iff)
  then have "(2::int) ^ (k - 1) \<le> \<lceil>1 / r\<rceil> - 1" using c assms by simp
  then have "(2::int) ^ (k - 1) < \<lceil>1 / r\<rceil>" by simp
  then have "(2::rat) ^ (k - 1) < 1 / r" by (simp add: less_ceiling_iff)
  then have "r < 1 / 2 ^ (k - 1)" using assms by (simp add: field_simps)
  moreover have "binary_exponent r + 1 = - int (k - 1)"
    using False k by (simp add: binary_exponent_def k_def)
  ultimately show ?thesis by (simp only: pow2_neg)
qed

lemma binary_exponent_le:
  assumes "0 < r" and "r < 2 powi b"
  shows "binary_exponent r < b"
proof (rule ccontr)
  assume "\<not> binary_exponent r < b"
  then have "b \<le> binary_exponent r" by simp
  then have "(2::rat) powi b \<le> 2 powi binary_exponent r"
    by (rule power_int_increasing) simp
  with binary_exponent_lower [OF assms(1)] assms(2) show False by simp
qed

lemma binary_exponent_eq:
  assumes "0 < r" and "2 powi b \<le> r" and "r < 2 powi (b + 1)"
  shows "binary_exponent r = b"
proof -
  have "binary_exponent r < b + 1" using assms(1,3) by (rule binary_exponent_le)
  moreover have "b < binary_exponent r + 1"
  proof (rule ccontr)
    assume "\<not> b < binary_exponent r + 1"
    then have "binary_exponent r + 1 \<le> b" by simp
    then have "(2::rat) powi (binary_exponent r + 1) \<le> 2 powi b"
      by (rule power_int_increasing) simp
    with binary_exponent_upper [OF assms(1)] assms(2) show False by simp
  qed
  ultimately show ?thesis by simp
qed

lemma binary_exponent_nonneg: "1 \<le> r \<Longrightarrow> 0 \<le> binary_exponent r"
  by (simp add: binary_exponent_def floorlog_def)

lemma round_half_even_of_int: "round_half_even (of_int n) = n"
  by (simp add: round_half_even_def)

lemma round_half_even_ge:
  assumes "of_int N \<le> z"
  shows "N \<le> round_half_even z"
proof -
  have "N \<le> \<lfloor>z\<rfloor>" using assms by (simp add: le_floor_iff)
  then show ?thesis by (simp add: round_half_even_def Let_def)
qed

lemma round_half_even_le: "z < of_int N - 1 / 2 \<Longrightarrow> round_half_even z \<le> N - 1"
  unfolding round_half_even_def Let_def
  by (auto; linarith)


lemma round_double_multiple:
  assumes "r \<noteq> 0" and "r / 2 powi (max (- 1022) (binary_exponent \<bar>r\<bar>) - 52) = of_int z"
  shows "round_double r = r"
proof -
  define u :: rat where "u = 2 powi (max (- 1022) (binary_exponent \<bar>r\<bar>) - 52)"
  have u: "0 < u" by (simp add: u_def)
  have "round_double r = of_int (round_half_even (r / u)) * u"
    using assms(1) by (simp add: round_double_def u_def Let_def)
  also have "\<dots> = of_int z * u"
    using assms(2) by (simp add: u_def round_half_even_of_int)
  also have "\<dots> = r"
    using assms(2) u by (simp add: u_def field_simps)
  finally show ?thesis .
qed

text \<open>Every integer of magnitude at most \<open>2^53\<close> is a double.\<close>

lemma round_double_int:
  assumes "\<bar>n\<bar> \<le> 2 ^ 53"
  shows "round_double (of_int n) = of_int n"
proof (cases "n = 0")
  case True
  then show ?thesis by (simp add: round_double_def)
next
  case False
  define a :: rat where "a = \<bar>of_int n\<bar>"
  have a1: "1 \<le> a" using False by (simp add: a_def)
  have a2: "a \<le> 2 ^ 53" using assms unfolding a_def
    by (metis of_int_abs of_int_le_iff of_int_numeral of_int_power)
  define e where "e = binary_exponent a"
  have e0: "0 \<le> e" unfolding e_def using a1 by (rule binary_exponent_nonneg)
  have "a < 2 powi 54" using a2 by simp
  then have e1: "e < 54" unfolding e_def using a1 by (intro binary_exponent_le) simp_all
  have m: "max (- 1022) e = e" using e0 by simp
  have low: "2 powi e \<le> a" unfolding e_def using a1 by (intro binary_exponent_lower) simp
  have "\<exists>z. of_int n / 2 powi (e - 52) = (of_int z :: rat)"
  proof (cases "e \<le> 52")
    case True
    define j where "j = nat (52 - e)"
    have "e - 52 = - int j" using True by (simp add: j_def)
    then have "of_int n / 2 powi (e - 52) = (of_int (n * 2 ^ j) :: rat)"
      by (simp add: pow2_neg)
    then show ?thesis ..
  next
    case False
    with e1 have e: "e = 53" by simp
    have "(2::rat) ^ 53 \<le> a" using low by (simp add: e)
    with a2 have "a = 2 ^ 53" by simp
    then have "\<bar>n\<bar> = 2 ^ 53" unfolding a_def
      by (metis of_int_abs of_int_eq_iff of_int_numeral of_int_power)
    then have "n = 2 ^ 53 \<or> n = - (2 ^ 53)" by linarith
    then have "of_int n / 2 powi (e - 52) = (of_int (n div 2) :: rat)"
      by (auto simp: e)
    then show ?thesis ..
  qed
  then obtain z where
    "of_int n / 2 powi (max (- 1022) (binary_exponent \<bar>of_int n\<bar>) - 52) = (of_int z :: rat)"
    using m by (auto simp: e_def a_def)
  moreover have "(of_int n :: rat) \<noteq> 0" using False by simp
  ultimately show ?thesis by (rule round_double_multiple [rotated])
qed

text \<open>
  Dividing an integer of magnitude at most \<open>2^53\<close> by 1000 and rounding the quotient
  never reaches the next integer: the doubles around the quotient are at most \<open>2^(-9)\<close>
  apart, and the quotient is at least a thousandth below it.
\<close>

lemma floor_round_double_div_1000:
  assumes "\<bar>x\<bar> \<le> 2 ^ 53"
  shows "\<lfloor>round_double (of_int x / 1000)\<rfloor> = x div 1000"
proof (cases "x = 0")
  case True
  then show ?thesis by (simp add: round_double_def)
next
  case False
  define y :: rat where "y = of_int x / 1000"
  define q where "q = x div 1000"
  define e where "e = max (- 1022) (binary_exponent \<bar>y\<bar>)"
  define k where "k = nat (52 - e)"
  have y0: "y \<noteq> 0" using False by (simp add: y_def)
  have "\<bar>of_int x :: rat\<bar> \<le> 2 ^ 53" using assms
    by (metis of_int_abs of_int_le_iff of_int_numeral of_int_power)
  then have "\<bar>y\<bar> < 2 powi 44" by (simp add: y_def)
  with y0 have "binary_exponent \<bar>y\<bar> < 44" by (intro binary_exponent_le) simp_all
  then have e: "e \<le> 43" by (simp add: e_def)
  then have k: "9 \<le> k" and ek: "e - 52 = - int k" by (simp_all add: k_def)
  have "(2::rat) ^ 9 \<le> 2 ^ k" using k by (intro power_increasing) simp_all
  then have big: "(512::rat) \<le> 2 ^ k" by simp
  define m where "m = round_half_even (y * 2 ^ k)"
  have rd: "round_double y = of_int m / 2 ^ k"
    using y0 by (simp add: round_double_def Let_def e_def [symmetric] ek pow2_neg m_def)
  have xq: "x = 1000 * q + x mod 1000" by (simp add: q_def)
  have r0: "0 \<le> x mod 1000" and r1: "x mod 1000 \<le> 999" by simp_all
  have yq: "y = of_int q + of_int (x mod 1000) / 1000"
    unfolding y_def by (subst xq) (simp add: field_simps)
  have lo: "of_int q \<le> y"
    using r0 by (simp add: yq)
  have hi: "y \<le> of_int q + 999 / 1000"
  proof -
    have "(of_int (x mod 1000) :: rat) \<le> 999" using r1 by (metis of_int_le_iff of_int_numeral)
    then show ?thesis by (simp add: yq)
  qed
  have "of_int (q * 2 ^ k) \<le> y * 2 ^ k"
    using lo by (simp add: mult_right_mono)
  then have m_lo: "q * 2 ^ k \<le> m" unfolding m_def by (rule round_half_even_ge)
  have "y * 2 ^ k \<le> (of_int q + 999 / 1000) * 2 ^ k"
    using hi by (simp add: mult_right_mono)
  also have "\<dots> = of_int ((q + 1) * 2 ^ k) - 2 ^ k / 1000"
    by (simp add: field_simps)
  also have "\<dots> < of_int ((q + 1) * 2 ^ k) - 1 / 2"
    using big by simp
  finally have "m \<le> (q + 1) * 2 ^ k - 1" unfolding m_def by (rule round_half_even_le)
  then have m_hi: "m < (q + 1) * 2 ^ k" by simp
  have "of_int q \<le> (of_int m :: rat) / 2 ^ k"
  proof -
    have "(of_int (q * 2 ^ k) :: rat) \<le> of_int m" using m_lo by (simp only: of_int_le_iff)
    then show ?thesis by (simp add: field_simps)
  qed
  moreover have "(of_int m :: rat) / 2 ^ k < of_int q + 1"
  proof -
    have "(of_int m :: rat) < of_int ((q + 1) * 2 ^ k)" using m_hi by (simp only: of_int_less_iff)
    then show ?thesis by (simp add: field_simps)
  qed
  ultimately have "\<lfloor>(of_int m :: rat) / 2 ^ k\<rfloor> = q" by (simp add: floor_eq_iff)
  then show ?thesis by (simp add: rd [unfolded y_def] q_def)
qed



section \<open>Facts about numbers\<close>

lemma number_of_not_NaN: "number_of r \<noteq> NaN"
  by (simp add: number_of_def)

lemma number_of_in_range: "\<bar>r\<bar> < overflow_bound \<Longrightarrow> number_of r = Fin (round_double r)"
  by (auto simp: number_of_def)

lemma small_in_range: "\<bar>r\<bar> \<le> 2 ^ 53 \<Longrightarrow> \<bar>r\<bar> < overflow_bound"
proof -
  have "(2::rat) ^ 53 < overflow_bound" by (simp add: overflow_bound_def)
  then show "\<bar>r\<bar> \<le> 2 ^ 53 \<Longrightarrow> \<bar>r\<bar> < overflow_bound" by simp
qed

lemma of_int_small: "\<bar>n\<bar> \<le> 2 ^ 53 \<Longrightarrow> \<bar>of_int n :: rat\<bar> \<le> 2 ^ 53"
  by (metis of_int_abs of_int_le_iff of_int_numeral of_int_power)

lemma number_of_int: "\<bar>n\<bar> \<le> 2 ^ 53 \<Longrightarrow> number_of (of_int n) = Fin (of_int n)"
  by (simp add: number_of_in_range small_in_range of_int_small round_double_int)

lemma js_add_int:
  "\<bar>a + b\<bar> \<le> 2 ^ 53 \<Longrightarrow> js_add (Fin (of_int a)) (Fin (of_int b)) = Fin (of_int (a + b))"
  using number_of_int [of "a + b"] by simp

lemma floor_div_1000_int:
  assumes "\<bar>x\<bar> \<le> 2 ^ 53"
  shows "Math_floor (js_div_1000 (Fin (of_int x))) = Fin (of_int (x div 1000))"
proof -
  have "\<bar>of_int x / 1000 :: rat\<bar> \<le> \<bar>of_int x\<bar>" by simp
  with of_int_small [OF assms] have "\<bar>of_int x / 1000 :: rat\<bar> \<le> 2 ^ 53" by simp
  then have "number_of (of_int x / 1000) = Fin (round_double (of_int x / 1000))"
    by (intro number_of_in_range small_in_range)
  then show ?thesis
    by (simp add: floor_round_double_div_1000 [OF assms])
qed

lemma js_add_Fin_NaN: "js_add (Fin a) x = NaN \<longleftrightarrow> x = NaN"
  by (cases x) (auto simp: number_of_def)

lemma floor_div_add_NaN: "Math_floor (js_div_1000 (js_add (Fin a) x)) = NaN \<longleftrightarrow> x = NaN"
  by (cases x) (auto simp: number_of_def)

lemma floor_div_NaN: "Math_floor (js_div_1000 x) = NaN \<longleftrightarrow> x = NaN"
  by (cases x) (auto simp: number_of_def)

lemma foldl_nines:
  "foldl (\<lambda>n c. 10 * n + digit_value c) a (replicate k (CHR ''9'')) + 1 = (a + 1) * 10 ^ k"
  by (induction k arbitrary: a) (simp_all add: digit_value_def algebra_simps)

lemma decimal_value_nines: "decimal_value (replicate k (CHR ''9'')) + 1 = 10 ^ k"
  using foldl_nines[of 0 k] by (simp add: decimal_value_def)

text \<open>
  Two roundings of the model, as the doubles have them: the sum of \<open>1699999999999\<close> and
  \<open>0.99993896484375\<close> is \<open>1700000000000\<close>, and \<open>2^53 + 1\<close> becomes \<open>2^53\<close>.
\<close>

lemma round_half_even_below: "round_half_even (of_int N - 1 / 4) = N"
  unfolding round_half_even_def Let_def
  by (auto; linarith)

lemma round_half_even_tie: "even N \<Longrightarrow> round_half_even (of_int N + 1 / 2) = N"
proof -
  have "\<lfloor>(of_int N :: rat) + 1 / 2\<rfloor> = N" by (simp add: floor_eq_iff)
  then show "even N \<Longrightarrow> round_half_even (of_int N + 1 / 2) = N"
    by (simp add: round_half_even_def Let_def)
qed

lemma js_add_rounds:
  "js_add (Fin 1699999999999) (Fin (16383 / 16384)) = Fin 1700000000000"
proof -
  define r :: rat where "r = 1699999999999 + 16383 / 16384"
  have e: "binary_exponent \<bar>r\<bar> = 40"
    by (rule binary_exponent_eq) (simp_all add: r_def)
  have q: "r / 2 powi (40 - 52) = of_int 6963200000000000 - 1 / 4"
    by (simp add: r_def)
  have "round_half_even (r / 2 powi (40 - 52)) = 6963200000000000"
    by (simp only: q round_half_even_below)
  then have "round_double r = 1700000000000"
    by (simp add: round_double_def e) (simp add: r_def)
  moreover have "\<bar>r\<bar> < overflow_bound" by (simp add: r_def overflow_bound_def)
  ultimately show ?thesis
    by (simp add: number_of_in_range r_def)
qed

lemma number_of_rounds: "number_of 9007199254740993 = Fin 9007199254740992"
proof -
  define r :: rat where "r = 9007199254740993"
  have e: "binary_exponent \<bar>r\<bar> = 53"
    by (rule binary_exponent_eq) (simp_all add: r_def)
  have q: "r / 2 powi (53 - 52) = of_int 4503599627370496 + 1 / 2"
    by (simp add: r_def)
  have t: "round_half_even (of_int 4503599627370496 + 1 / 2) = 4503599627370496"
    by (rule round_half_even_tie) simp
  have "round_half_even (r / 2 powi (53 - 52)) = 4503599627370496"
    by (simp only: q t)
  then have "round_double r = 9007199254740992"
    by (simp add: round_double_def e) (simp add: r_def)
  moreover have "\<bar>r\<bar> < overflow_bound" by (simp add: r_def overflow_bound_def)
  ultimately show ?thesis
    by (simp add: number_of_in_range r_def)
qed

section \<open>Facts about digit strings\<close>

lemma isDigit_not_space: "isDigit c \<Longrightarrow> \<not> isWhiteSpace c"
  by (auto simp: isDigit_def isWhiteSpace_def)

lemma isDigit_not_sign: "isDigit c \<Longrightarrow> c \<noteq> CHR ''-'' \<and> c \<noteq> CHR ''+''"
  by (auto simp: isDigit_def)

lemma takeWhile_all: "list_all P xs \<Longrightarrow> takeWhile P xs = xs"
  by (induction xs) auto

lemma parseInt_isNumeric:
  assumes "isNumeric s"
  shows "parseInt s = number_of (of_nat (decimal_value s))"
proof -
  from assms obtain c cs where s: "s = c # cs" and c: "isDigit c" and all: "list_all isDigit cs"
    by (cases s) (auto simp: isNumeric_def)
  have t: "takeWhile isDigit cs = cs" using all by (rule takeWhile_all)
  show ?thesis
    using c isDigit_not_space[OF c] isDigit_not_sign[OF c]
    by (simp add: parseInt_def s t)
qed

lemma parseInt_small:
  assumes "isNumeric s" and "decimal_value s \<le> 2 ^ 53"
  shows "parseInt s = Fin (of_nat (decimal_value s))"
proof -
  have "\<bar>int (decimal_value s)\<bar> \<le> 2 ^ 53" using assms(2) by simp
  then have "number_of (of_int (int (decimal_value s))) = Fin (of_int (int (decimal_value s)))"
    by (rule number_of_int)
  then show ?thesis by (simp add: parseInt_isNumeric [OF assms(1)])
qed

lemma isNumeric_nines: "0 < k \<Longrightarrow> isNumeric (replicate k (CHR ''9''))"
  by (cases k) (auto simp: isNumeric_def isDigit_def list_all_iff)

lemma parseInt_nines_400: "parseInt (replicate 400 (CHR ''9'')) = PosInf"
proof -
  have "isNumeric (replicate 400 (CHR ''9''))" by (rule isNumeric_nines) simp
  then have "parseInt (replicate 400 (CHR ''9'')) =
      number_of (of_nat (decimal_value (replicate 400 (CHR ''9''))))"
    by (rule parseInt_isNumeric)
  moreover have "decimal_value (replicate 400 (CHR ''9'')) = 10 ^ 400 - 1"
    using decimal_value_nines[of 400] by simp
  ultimately show ?thesis
    by (simp add: number_of_def overflow_bound_def)
qed

lemma parseInt_rounds: "parseInt ''9007199254740993'' = Fin 9007199254740992"
proof -
  have "isNumeric ''9007199254740993''" by (simp add: isNumeric_def isDigit_def)
  then have "parseInt ''9007199254740993'' = number_of (of_nat (decimal_value ''9007199254740993''))"
    by (rule parseInt_isNumeric)
  then show ?thesis
    by (simp add: decimal_value_def digit_value_def number_of_rounds)
qed

section \<open>Facts about the two resolvers\<close>

lemma checkExpiration_numeric:
  "isNumeric s \<Longrightarrow> checkExpiration ms now s = Inr (parseInt s)"
  by (simp add: checkExpiration_def isNaN_def parseInt_isNumeric number_of_not_NaN)

lemma checkExpiresIn_numeric:
  "isNumeric s \<Longrightarrow> checkExpiresIn ms s = Inr (parseInt s)"
  by (simp add: checkExpiresIn_def isNaN_def parseInt_isNumeric number_of_not_NaN)

lemma checkExpiration_parsed:
  assumes "\<not> isNumeric s" and "ms s = Inr d"
  shows "checkExpiration ms now s =
           (if ToNumber d = NaN then Inl (Error (''Invalid expiration: '' @ s))
            else Inr (Math_floor (js_div_1000 (js_add (Fin (of_int now)) (ToNumber d)))))"
  using assms by (simp add: checkExpiration_def isNaN_def floor_div_add_NaN)

lemma checkExpiresIn_parsed:
  assumes "\<not> isNumeric s" and "ms s = Inr d"
  shows "checkExpiresIn ms s =
           (if ToNumber d = NaN then Inl (Error (''Invalid expiresIn: '' @ s))
            else Inr (Math_floor (js_div_1000 (ToNumber d))))"
  using assms by (simp add: checkExpiresIn_def isNaN_def floor_div_NaN)

lemma checkExpiration_finite:
  assumes "\<not> isNumeric s" and "ms s = Inr (Some (Fin d))"
  shows "checkExpiration ms now s =
           Inr (Math_floor (js_div_1000 (js_add (Fin (of_int now)) (Fin d))))"
  using checkExpiration_parsed [where ms = ms, OF assms] js_add_Fin_NaN [of "of_int now" "Fin d"]
  by (simp add: ToNumber_def)




lemma checkExpiration_whole_ms:
  assumes "\<not> isNumeric s" and "ms s = Inr (Some (Fin (of_int k)))"
    and "\<bar>now + k\<bar> \<le> 2 ^ 53"
  shows "checkExpiration ms now s = Inr (Fin (of_int ((now + k) div 1000)))"
  by (simp only: checkExpiration_finite [where ms = ms, OF assms(1,2)]
      js_add_int [OF assms(3)] floor_div_1000_int [OF assms(3)])


text \<open>
  The rounding of the sum shows in the result: with the clock at \<open>1699999999999\<close> and a
  duration of \<open>0.99993896484375\<close> milliseconds, the sum is \<open>1700000000000\<close> and the
  expiration \<open>1700000000\<close>, one above the floor of the exact quotient.
\<close>

lemma checkExpiration_rounds:
  assumes "\<not> isNumeric s" and "ms s = Inr (Some (Fin (16383 / 16384)))"
  shows "checkExpiration ms 1699999999999 s = Inr (Fin 1700000000)"
proof -
  have "Math_floor (js_div_1000 (Fin 1700000000000)) = Fin 1700000000"
    using floor_div_1000_int [of 1700000000000] by simp
  then show ?thesis
    using checkExpiration_finite [where ms = ms and now = 1699999999999, OF assms]
    by (simp add: js_add_rounds del: js_div_1000.simps js_add.simps)
qed

section \<open>Expiration resolution\<close>

text \<open>
  C3: for every string of decimal digits, the absolute-mode resolver \<open>checkExpiration\<close>
  returns exactly \<open>parseInt\<close> of it, and the relative-mode resolver \<open>checkExpiresIn\<close>
  returns the same number unchanged; up to \<open>2^53\<close> that number is the one the digits
  denote.
\<close>

theorem numeric_expiration_verbatim:
  assumes "isNumeric s"
  shows "checkExpiration ms now s = Inr (parseInt s) \<and>
         checkExpiresIn ms s = Inr (parseInt s) \<and>
         (decimal_value s \<le> 2 ^ 53 \<longrightarrow> parseInt s = Fin (of_nat (decimal_value s)))"
  using assms
  by (simp add: checkExpiration_numeric checkExpiresIn_numeric parseInt_small)

theorem numeric_expiration_verbatim_witness:
  "isNumeric ''1700000000'' \<and>
   checkExpiration sample_ms 1700000000123 ''1700000000'' = Inr (Fin 1700000000) \<and>
   checkExpiresIn sample_ms ''1700000000'' = Inr (Fin 1700000000)"
proof -
  have h: "isNumeric ''1700000000''"
    by (simp add: isNumeric_def isDigit_def)
  have v: "decimal_value ''1700000000'' = 1700000000"
    by (simp add: decimal_value_def digit_value_def)
  show ?thesis
    using numeric_expiration_verbatim [where ms = sample_ms and now = 1700000000123, OF h] h
    by (simp add: v)
qed



text \<open>
  C5, as stated, fails: a string of 400 nines is all digits and resolves to Infinity, a
  non-finite number, and both resolvers return it instead of failing.
\<close>

theorem infinite_expiration_returned:
  "isNumeric (replicate 400 (CHR ''9'')) \<and>
   parseInt (replicate 400 (CHR ''9'')) = PosInf \<and>
   checkExpiration sample_ms 1700000000123 (replicate 400 (CHR ''9'')) = Inr PosInf \<and>
   checkExpiresIn sample_ms (replicate 400 (CHR ''9'')) = Inr PosInf"
proof -
  have h: "isNumeric (replicate 400 (CHR ''9''))"
    by (rule isNumeric_nines) simp
  show ?thesis
    using h by (simp add: checkExpiration_numeric checkExpiresIn_numeric parseInt_nines_400)
qed

text \<open>
  C5, amended: the test is for NaN, not for finiteness. Whenever the duration parser
  returns, both resolvers fail with the error that carries the input string exactly when
  the string is not all digits and the parser gave no number (\<open>undefined\<close> or NaN);
  otherwise both return a number that is not NaN, which may be an infinity.
\<close>

theorem expiration_error_iff_NaN:
  assumes "isNumeric s \<or> ms s = Inr d"
  shows "if \<not> isNumeric s \<and> ToNumber d = NaN
         then checkExpiration ms now s = Inl (Error (''Invalid expiration: '' @ s)) \<and>
              checkExpiresIn ms s = Inl (Error (''Invalid expiresIn: '' @ s))
         else (\<exists>x. checkExpiration ms now s = Inr x \<and> x \<noteq> NaN) \<and>
              (\<exists>y. checkExpiresIn ms s = Inr y \<and> y \<noteq> NaN)"
proof (cases "isNumeric s")
  case True
  then show ?thesis
    by (simp add: checkExpiration_numeric checkExpiresIn_numeric parseInt_isNumeric
        number_of_not_NaN)
next
  case False
  with assms have p: "ms s = Inr d" by simp
  show ?thesis
    using False
    by (simp add: checkExpiration_parsed [where ms = ms, OF False p]
        checkExpiresIn_parsed [where ms = ms, OF False p]
        floor_div_add_NaN floor_div_NaN js_add_Fin_NaN)
qed

theorem expiration_error_iff_NaN_witness:
  "(isNumeric ''soon'' \<or> sample_ms ''soon'' = Inr None) \<and>
   checkExpiration sample_ms 1700000000123 ''soon'' = Inl (Error ''Invalid expiration: soon'') \<and>
   checkExpiresIn sample_ms ''soon'' = Inl (Error ''Invalid expiresIn: soon'')"
proof -
  have a: "isNumeric ''soon'' \<or> sample_ms ''soon'' = Inr None"
    by (simp add: sample_ms_def)
  have b: "\<not> isNumeric ''soon''"
    by (simp add: isNumeric_def isDigit_def)
  show ?thesis
    using expiration_error_iff_NaN [where ms = sample_ms and s = "''soon''" and now = 1700000000123, OF a] a b
    by (simp add: ToNumber_def)
qed

section \<open>Facts about the signer\<close>

lemma jwt_sign_Inr:
  assumes "jwt_sign ms jws now claims key opts = Inr token"
  shows "\<exists>expn. jws key
           \<lparr>header = [(''alg'', JStr (algorithm opts)), (''typ'', JStr ''JWT''),
                      (''kid'', JStr (keyid opts))],
            payload = claims @ [(''iat'', JNum (Math_floor (js_div_1000 (Fin (of_int now))))),
                                (''exp'', JNum expn)]\<rparr> = Inr token"
  using assms
  by (auto simp: jwt_sign_def Let_def split: if_splits sum.splits option.splits expires.splits)

lemma create_jwt_readable:
  assumes "create_jwt readFile ms jws now partner file keyId customerId videoId manifest x
             eventName regexes = Inr token"
  shows "\<exists>key. readFile file = Inr key \<and>
           sign ms jws now \<lparr>partnerId = partner, privateKey = key\<rparr> keyId customerId videoId
             manifest (ExpStr x) = Inr token"
  using assms
  by (auto simp: create_jwt_def HiveJwtCreator_create_def split: sum.splits)

lemma sign_Inr_payload:
  assumes "sign ms jws now this keyId customerId videoId manifests x = Inr token"
  shows "\<exists>t. jws (privateKey this) t = Inr token \<and>
           map fst (payload t) = [''iss'', ''sub'', ''ver'', ''aud'', ''cid'', ''man'', ''iat'', ''exp''] \<and>
           map_of (payload t) ''man'' = Some (JArr (map JStr manifests)) \<and>
           map_of (payload t) ''regexes'' = None"
proof -
  from jwt_sign_Inr [OF assms [unfolded sign_def Let_def]]
  obtain expn where
    "jws (privateKey this)
       \<lparr>header = [(''alg'', JStr ''RS256''), (''typ'', JStr ''JWT''), (''kid'', JStr keyId)],
        payload = [(''iss'', JStr (partnerId this)), (''sub'', JStr videoId), (''ver'', JStr ''1.0''),
                   (''aud'', JStr ''https://hivestreaming.com''), (''cid'', JStr customerId),
                   (''man'', strings manifests),
                   (''iat'', JNum (Math_floor (js_div_1000 (Fin (of_int now))))),
                   (''exp'', JNum expn)]\<rparr> = Inr token"
    by auto
  then show ?thesis
    by (intro exI conjI, assumption) (simp_all add: strings_def)
qed

lemma clock_seconds: "Math_floor (js_div_1000 (Fin 1700000000123)) = Fin 1700000000"
  using floor_div_1000_int [of 1700000000123] by simp

lemma two_hours_later:
  "Math_floor (js_add (Fin 1700000000) (js_div_1000 (Fin 7200000))) = Fin 1700007200"
proof -
  have "js_div_1000 (Fin 7200000) = Fin 7200"
    using number_of_int [of 7200] by simp
  moreover have "js_add (Fin 1700000000) (Fin 7200) = Fin 1700007200"
    using js_add_int [of 1700000000 7200] by simp
  ultimately show ?thesis by simp
qed

lemma parseInt_60: "parseInt ''60'' = Fin 60"
proof -
  have "isNumeric ''60''" by (simp add: isNumeric_def isDigit_def)
  moreover have "decimal_value ''60'' = 60" by (simp add: decimal_value_def digit_value_def)
  ultimately show ?thesis using parseInt_small [of "''60''"] by simp
qed


lemma sample_checkExpiration_2h:
  "checkExpiration sample_ms 1700000000123 ''2h'' = Inr (Fin 1700007200)"
proof -
  have a: "\<not> isNumeric ''2h''" by (simp add: isNumeric_def isDigit_def)
  have b: "sample_ms ''2h'' = Inr (Some (Fin (of_int 7200000)))" by (simp add: sample_ms_def)
  have c: "\<bar>1700000000123 + (7200000::int)\<bar> \<le> 2 ^ 53" by simp
  show ?thesis
    using checkExpiration_whole_ms [where ms = sample_ms, OF a b c] by simp
qed

lemma sample_sign_2h:
  "sign sample_ms sample_jws 1700000000123 sample_creator ''k1'' ''cust'' ''video'' m (ExpStr ''2h'') =
     Inr ''KEY.alg,typ,kid.iss,sub,ver,aud,cid,man,iat,exp''"
  by (simp add: sign_def jwt_sign_def sample_ms_def sample_jws_def sample_creator_def join_def)

lemma sample_create_jwt_2h:
  "create_jwt sample_readFile sample_ms sample_jws 1700000000123 ''acme'' ''key.pem'' ''k1''
     ''cust'' ''video'' m ''2h'' e r = Inr ''KEY.alg,typ,kid.iss,sub,ver,aud,cid,man,iat,exp''"
  using sample_sign_2h [of m]
  by (simp add: create_jwt_def HiveJwtCreator_create_def sample_readFile_def sample_creator_def)

lemma checkManifestOrArray_both:
  "manifest \<noteq> [] \<Longrightarrow> checkManifestOrArray manifest (Some regexes) =
     Inl (Error ''Only one of manifest or regex list can be defined.'')"
  by (simp add: checkManifestOrArray_def)

section \<open>Token signing\<close>



text \<open>
  C9: the handler of \<open>create-jwt\<close> hands an event name and a list of regular expressions
  to \<open>sign\<close>; two invocations that differ only in these produce the same result, and a
  token produced is the serialisation of a body whose properties are \<open>iss\<close>, \<open>sub\<close>,
  \<open>ver\<close>, \<open>aud\<close>, \<open>cid\<close>, \<open>man\<close>, \<open>iat\<close>, \<open>exp\<close>, with \<open>man\<close> the manifest list: no
  regular expression is in it.
\<close>

theorem create_jwt_ignores_extra_arguments:
  "create_jwt readFile ms jws now partner file keyId customerId videoId manifest x eventName regexes =
   create_jwt readFile ms jws now partner file keyId customerId videoId manifest x eventName' regexes' \<and>
   (\<forall>token.
      create_jwt readFile ms jws now partner file keyId customerId videoId manifest x
        eventName regexes = Inr token \<longrightarrow>
      (\<exists>key t. jws key t = Inr token \<and>
         map fst (payload t) = [''iss'', ''sub'', ''ver'', ''aud'', ''cid'', ''man'', ''iat'', ''exp''] \<and>
         map_of (payload t) ''man'' = Some (JArr (map JStr manifest)) \<and>
         map_of (payload t) ''regexes'' = None))"
proof (intro conjI allI impI)
  show "create_jwt readFile ms jws now partner file keyId customerId videoId manifest x eventName regexes =
        create_jwt readFile ms jws now partner file keyId customerId videoId manifest x eventName' regexes'"
    by (simp add: create_jwt_def)
next
  fix token
  assume "create_jwt readFile ms jws now partner file keyId customerId videoId manifest x
            eventName regexes = Inr token"
  then obtain key where
    "sign ms jws now \<lparr>partnerId = partner, privateKey = key\<rparr> keyId customerId videoId
       manifest (ExpStr x) = Inr token"
    using create_jwt_readable by blast
  from sign_Inr_payload [OF this]
  show "\<exists>key t. jws key t = Inr token \<and>
         map fst (payload t) = [''iss'', ''sub'', ''ver'', ''aud'', ''cid'', ''man'', ''iat'', ''exp''] \<and>
         map_of (payload t) ''man'' = Some (JArr (map JStr manifest)) \<and>
         map_of (payload t) ''regexes'' = None"
    by (elim exE) (intro exI, simp)
qed

theorem create_jwt_ignores_extra_arguments_witness:
  "create_jwt sample_readFile sample_ms sample_jws 1700000000123 ''acme'' ''key.pem'' ''k1''
     ''cust'' ''video'' [] ''2h'' None (Some [''^https://cdn/.*$'']) =
   create_jwt sample_readFile sample_ms sample_jws 1700000000123 ''acme'' ''key.pem'' ''k1''
     ''cust'' ''video'' [] ''2h'' (Some ''launch'') None \<and>
   create_jwt sample_readFile sample_ms sample_jws 1700000000123 ''acme'' ''key.pem'' ''k1''
     ''cust'' ''video'' [] ''2h'' None (Some [''^https://cdn/.*$'']) =
     Inr ''KEY.alg,typ,kid.iss,sub,ver,aud,cid,man,iat,exp''"
  using create_jwt_ignores_extra_arguments
    [of sample_readFile sample_ms sample_jws 1700000000123 "''acme''" "''key.pem''" "''k1''"
      "''cust''" "''video''" "[]" "''2h''" None "Some [''^https://cdn/.*$'']" "Some ''launch''" None]
    sample_create_jwt_2h [of "[]" None "Some [''^https://cdn/.*$'']"]
  by simp

text \<open>
  C1: the code departs from the claim. With manifests \<open>["a"]\<close> and regexes \<open>["b"]\<close> the
  \<open>create-jwt\<close> command does not fail: it returns a token whose body has \<open>man\<close> and no
  \<open>regexes\<close>; with manifests \<open>[]\<close> and regexes \<open>["b"]\<close> the body has no \<open>regexes\<close>
  either. \<open>checkManifestOrArray\<close>, which \<open>sign\<close> never calls, does what the claim says
  on both inputs.
\<close>

theorem sign_never_checks_regexes:
  "create_jwt sample_readFile sample_ms jws 1700000000123 ''acme'' ''key.pem'' ''k1''
     ''cust'' ''video'' [''a''] ''2h'' None (Some [''b'']) =
     jws ''KEY''
       \<lparr>header = [(''alg'', JStr ''RS256''), (''typ'', JStr ''JWT''), (''kid'', JStr ''k1'')],
        payload = [(''iss'', JStr ''acme''), (''sub'', JStr ''video''), (''ver'', JStr ''1.0''),
                   (''aud'', JStr ''https://hivestreaming.com''), (''cid'', JStr ''cust''),
                   (''man'', JArr [JStr ''a'']),
                   (''iat'', JNum (Fin 1700000000)), (''exp'', JNum (Fin 1700007200))]\<rparr> \<and>
   checkManifestOrArray [''a''] (Some [''b'']) =
     Inl (Error ''Only one of manifest or regex list can be defined.'') \<and>
   create_jwt sample_readFile sample_ms jws 1700000000123 ''acme'' ''key.pem'' ''k1''
     ''cust'' ''video'' [] ''2h'' None (Some [''b'']) =
     jws ''KEY''
       \<lparr>header = [(''alg'', JStr ''RS256''), (''typ'', JStr ''JWT''), (''kid'', JStr ''k1'')],
        payload = [(''iss'', JStr ''acme''), (''sub'', JStr ''video''), (''ver'', JStr ''1.0''),
                   (''aud'', JStr ''https://hivestreaming.com''), (''cid'', JStr ''cust''),
                   (''man'', JArr []),
                   (''iat'', JNum (Fin 1700000000)), (''exp'', JNum (Fin 1700007200))]\<rparr> \<and>
   checkManifestOrArray [] (Some [''b'']) =
     Inr [(''man'', JArr []), (''regexes'', JArr [JStr ''b''])]"
proof -
  have t: "Math_floor (js_div_1000 (Fin (of_int 1700000000123))) = Fin 1700000000"
    using clock_seconds by simp
  have s: "sign sample_ms jws 1700000000123 \<lparr>partnerId = ''acme'', privateKey = ''KEY''\<rparr>
             ''k1'' ''cust'' ''video'' m (ExpStr ''2h'') =
           jws ''KEY''
             \<lparr>header = [(''alg'', JStr ''RS256''), (''typ'', JStr ''JWT''), (''kid'', JStr ''k1'')],
              payload = [(''iss'', JStr ''acme''), (''sub'', JStr ''video''), (''ver'', JStr ''1.0''),
                         (''aud'', JStr ''https://hivestreaming.com''), (''cid'', JStr ''cust''),
                         (''man'', JArr (map JStr m)),
                         (''iat'', JNum (Fin 1700000000)), (''exp'', JNum (Fin 1700007200))]\<rparr>"
    for m
    unfolding sign_def jwt_sign_def Let_def t
    by (simp add: sample_ms_def strings_def two_hours_later del: js_div_1000.simps js_add.simps)
  show ?thesis
    by (simp add: create_jwt_def HiveJwtCreator_create_def sample_readFile_def s
        checkManifestOrArray_def strings_def)
qed

section \<open>The reporting URL\<close>

lemma signReporting_Some:
  "signReporting ms jws now this keyId customerId videoId x (Some e) =
     (case jwt_sign ms jws now
             [(''iss'', JStr (partnerId this)), (''sub'', JStr videoId), (''ver'', JStr ''1.0''),
              (''aud'', JStr ''https://hivestreaming.com''), (''cid'', JStr customerId),
              (''act'', JStr ''reporting'')]
             (privateKey this) \<lparr>algorithm = ''RS256'', keyid = keyId, expiresIn = x\<rparr> of
        Inl err \<Rightarrow> Inl err
      | Inr token \<Rightarrow>
          Inr (''https://api'' @ (if e = ''prod'' then [] else ''-'' @ e) @
               ''.hivestreaming.com/v1/url-redirect/adminportal-jwt/'' @ token))"
  by (simp add: signReporting_def)

text \<open>
  C7, as stated, fails: \<open>signReporting\<close> called with the endpoint \<open>staging\<close> does not
  fail, it returns a URL on the host \<open>api-staging.hivestreaming.com\<close>.
\<close>

theorem signReporting_accepts_any_endpoint:
  "signReporting sample_ms sample_jws 1700000000123 sample_creator ''k1'' ''cust'' ''video''
     (ExpNum (Fin 60)) (Some ''staging'') =
   Inr (''https://api-staging.hivestreaming.com/v1/url-redirect/adminportal-jwt/'' @
        ''KEY.alg,typ,kid.iss,sub,ver,aud,cid,act,iat,exp'')"
  by (simp add: signReporting_def jwt_sign_def isInteger_def sample_jws_def sample_creator_def
      join_def)

text \<open>
  C7, amended: \<open>signReporting\<close> signs the reduced claims (\<open>act: reporting\<close> in place of
  \<open>man\<close>) and, with that token, yields for the endpoint \<open>prod\<close> the URL
  \<open>https://api.hivestreaming.com/v1/url-redirect/adminportal-jwt/<token>\<close> and for \<open>test\<close>
  the same URL on the host \<open>api-test.hivestreaming.com\<close>; when the signing fails it fails
  with the same error. It rejects no endpoint itself (another value \<open>e\<close> gives the host
  \<open>api-e\<close>). The values other than \<open>prod\<close> and \<open>test\<close> are rejected by \<open>checkEndpoint\<close>,
  with an error that carries the value, and the \<open>reporting-url\<close> command applies it before
  \<open>signReporting\<close> is called.
\<close>

theorem signReporting_url:
  "(jwt_sign ms jws now
      [(''iss'', JStr (partnerId this)), (''sub'', JStr videoId), (''ver'', JStr ''1.0''),
       (''aud'', JStr ''https://hivestreaming.com''), (''cid'', JStr customerId),
       (''act'', JStr ''reporting'')]
      (privateKey this) \<lparr>algorithm = ''RS256'', keyid = keyId, expiresIn = x\<rparr> = Inr token \<longrightarrow>
    signReporting ms jws now this keyId customerId videoId x (Some ''prod'') =
      Inr (''https://api.hivestreaming.com/v1/url-redirect/adminportal-jwt/'' @ token) \<and>
    signReporting ms jws now this keyId customerId videoId x (Some ''test'') =
      Inr (''https://api-test.hivestreaming.com/v1/url-redirect/adminportal-jwt/'' @ token) \<and>
    signReporting ms jws now this keyId customerId videoId x (Some e) =
      Inr (''https://api'' @ (if e = ''prod'' then [] else ''-'' @ e) @
           ''.hivestreaming.com/v1/url-redirect/adminportal-jwt/'' @ token) \<and>
    (\<exists>expn. jws (privateKey this)
       \<lparr>header = [(''alg'', JStr ''RS256''), (''typ'', JStr ''JWT''), (''kid'', JStr keyId)],
        payload = [(''iss'', JStr (partnerId this)),
                   (''sub'', JStr videoId),
                   (''ver'', JStr ''1.0''),
                   (''aud'', JStr ''https://hivestreaming.com''),
                   (''cid'', JStr customerId),
                   (''act'', JStr ''reporting''),
                   (''iat'', JNum (Math_floor (js_div_1000 (Fin (of_int now))))),
                   (''exp'', JNum expn)]\<rparr> = Inr token)) \<and>
   (jwt_sign ms jws now
      [(''iss'', JStr (partnerId this)), (''sub'', JStr videoId), (''ver'', JStr ''1.0''),
       (''aud'', JStr ''https://hivestreaming.com''), (''cid'', JStr customerId),
       (''act'', JStr ''reporting'')]
      (privateKey this) \<lparr>algorithm = ''RS256'', keyid = keyId, expiresIn = x\<rparr> = Inl err \<longrightarrow>
    signReporting ms jws now this keyId customerId videoId x (Some e) = Inl err) \<and>
   checkEndpoint e =
     (if e = ''prod'' \<or> e = ''test'' then Inr e
      else Inl (Error (''Invalid endpoint: '' @ e))) \<and>
   (checkExpiresIn ms xs = Inr n \<and> readFile keyfile = Inr key \<longrightarrow>
    reporting_url readFile ms jws now partner keyfile keyId customerId videoId e xs =
      (if e = ''prod'' \<or> e = ''test''
       then signReporting ms jws now \<lparr>partnerId = partner, privateKey = key\<rparr>
              keyId customerId videoId (ExpNum n) (Some e)
       else Inl (Error (''Invalid endpoint: '' @ e))))"
proof (intro conjI impI)
  assume t: "jwt_sign ms jws now
      [(''iss'', JStr (partnerId this)), (''sub'', JStr videoId), (''ver'', JStr ''1.0''),
       (''aud'', JStr ''https://hivestreaming.com''), (''cid'', JStr customerId),
       (''act'', JStr ''reporting'')]
      (privateKey this) \<lparr>algorithm = ''RS256'', keyid = keyId, expiresIn = x\<rparr> = Inr token"
  show "signReporting ms jws now this keyId customerId videoId x (Some ''prod'') =
      Inr (''https://api.hivestreaming.com/v1/url-redirect/adminportal-jwt/'' @ token)"
    by (simp add: signReporting_Some t)
  show "signReporting ms jws now this keyId customerId videoId x (Some ''test'') =
      Inr (''https://api-test.hivestreaming.com/v1/url-redirect/adminportal-jwt/'' @ token)"
    by (simp add: signReporting_Some t)
  show "signReporting ms jws now this keyId customerId videoId x (Some e) =
      Inr (''https://api'' @ (if e = ''prod'' then [] else ''-'' @ e) @
           ''.hivestreaming.com/v1/url-redirect/adminportal-jwt/'' @ token)"
    by (simp add: signReporting_Some t)
  show "\<exists>expn. jws (privateKey this)
       \<lparr>header = [(''alg'', JStr ''RS256''), (''typ'', JStr ''JWT''), (''kid'', JStr keyId)],
        payload = [(''iss'', JStr (partnerId this)),
                   (''sub'', JStr videoId),
                   (''ver'', JStr ''1.0''),
                   (''aud'', JStr ''https://hivestreaming.com''),
                   (''cid'', JStr customerId),
                   (''act'', JStr ''reporting''),
                   (''iat'', JNum (Math_floor (js_div_1000 (Fin (of_int now))))),
                   (''exp'', JNum expn)]\<rparr> = Inr token"
    using jwt_sign_Inr [OF t] by simp
next
  assume "jwt_sign ms jws now
      [(''iss'', JStr (partnerId this)), (''sub'', JStr videoId), (''ver'', JStr ''1.0''),
       (''aud'', JStr ''https://hivestreaming.com''), (''cid'', JStr customerId),
       (''act'', JStr ''reporting'')]
      (privateKey this) \<lparr>algorithm = ''RS256'', keyid = keyId, expiresIn = x\<rparr> = Inl err"
  then show "signReporting ms jws now this keyId customerId videoId x (Some e) = Inl err"
    by (simp add: signReporting_Some)
next
  show "checkEndpoint e =
     (if e = ''prod'' \<or> e = ''test'' then Inr e
      else Inl (Error (''Invalid endpoint: '' @ e)))"
    by (simp add: checkEndpoint_def)
next
  assume "checkExpiresIn ms xs = Inr n \<and> readFile keyfile = Inr key"
  then show "reporting_url readFile ms jws now partner keyfile keyId customerId videoId e xs =
      (if e = ''prod'' \<or> e = ''test''
       then signReporting ms jws now \<lparr>partnerId = partner, privateKey = key\<rparr>
              keyId customerId videoId (ExpNum n) (Some e)
       else Inl (Error (''Invalid endpoint: '' @ e)))"
    by (simp add: reporting_url_def HiveJwtCreator_create_def checkEndpoint_def)
qed

theorem signReporting_url_witness:
  "signReporting sample_ms sample_jws 1700000000123 sample_creator ''k1'' ''cust'' ''video''
     (ExpNum (Fin 60)) (Some ''prod'') =
     Inr (''https://api.hivestreaming.com/v1/url-redirect/adminportal-jwt/'' @
          ''KEY.alg,typ,kid.iss,sub,ver,aud,cid,act,iat,exp'') \<and>
   signReporting sample_ms sample_jws 1700000000123 sample_creator ''k1'' ''cust'' ''video''
     (ExpNum (Fin 60)) (Some ''test'') =
     Inr (''https://api-test.hivestreaming.com/v1/url-redirect/adminportal-jwt/'' @
          ''KEY.alg,typ,kid.iss,sub,ver,aud,cid,act,iat,exp'') \<and>
   checkEndpoint ''staging'' = Inl (Error ''Invalid endpoint: staging'') \<and>
   reporting_url sample_readFile sample_ms sample_jws 1700000000123 ''acme'' ''key.pem'' ''k1''
     ''cust'' ''video'' ''staging'' ''60'' = Inl (Error ''Invalid endpoint: staging'') \<and>
   reporting_url sample_readFile sample_ms sample_jws 1700000000123 ''acme'' ''key.pem'' ''k1''
     ''cust'' ''video'' ''test'' ''60'' =
     Inr (''https://api-test.hivestreaming.com/v1/url-redirect/adminportal-jwt/'' @
          ''KEY.alg,typ,kid.iss,sub,ver,aud,cid,act,iat,exp'')"
proof -
  have t: "jwt_sign sample_ms sample_jws 1700000000123
      [(''iss'', JStr (partnerId sample_creator)), (''sub'', JStr ''video''), (''ver'', JStr ''1.0''),
       (''aud'', JStr ''https://hivestreaming.com''), (''cid'', JStr ''cust''),
       (''act'', JStr ''reporting'')]
      (privateKey sample_creator) \<lparr>algorithm = ''RS256'', keyid = ''k1'', expiresIn = ExpNum (Fin 60)\<rparr> =
      Inr ''KEY.alg,typ,kid.iss,sub,ver,aud,cid,act,iat,exp''"
    by (simp add: jwt_sign_def isInteger_def sample_jws_def sample_creator_def join_def)
  have n: "isNumeric ''60''"
    by (simp add: isNumeric_def isDigit_def)
  have x: "checkExpiresIn sample_ms ''60'' = Inr (Fin 60)"
    by (simp add: checkExpiresIn_numeric [OF n] parseInt_60)
  have r: "sample_readFile ''key.pem'' = Inr ''KEY''"
    by (simp add: sample_readFile_def)
  have c: "\<lparr>partnerId = ''acme'', privateKey = ''KEY''\<rparr> = sample_creator"
    by (simp add: sample_creator_def)
  note u = signReporting_url
    [where ms = sample_ms and jws = sample_jws and now = 1700000000123 and this = sample_creator
       and keyId = "''k1''" and customerId = "''cust''" and videoId = "''video''"
       and x = "ExpNum (Fin 60)" and token = "''KEY.alg,typ,kid.iss,sub,ver,aud,cid,act,iat,exp''"
       and xs = "''60''" and n = "Fin 60" and readFile = sample_readFile
       and keyfile = "''key.pem''" and key = "''KEY''" and partner = "''acme''"]
  from u [where e = "''test''"] t x r
  have a: "signReporting sample_ms sample_jws 1700000000123 sample_creator ''k1'' ''cust'' ''video''
        (ExpNum (Fin 60)) (Some ''prod'') =
      Inr (''https://api.hivestreaming.com/v1/url-redirect/adminportal-jwt/'' @
           ''KEY.alg,typ,kid.iss,sub,ver,aud,cid,act,iat,exp'')"
    and b: "signReporting sample_ms sample_jws 1700000000123 sample_creator ''k1'' ''cust'' ''video''
        (ExpNum (Fin 60)) (Some ''test'') =
      Inr (''https://api-test.hivestreaming.com/v1/url-redirect/adminportal-jwt/'' @
           ''KEY.alg,typ,kid.iss,sub,ver,aud,cid,act,iat,exp'')"
    and d: "reporting_url sample_readFile sample_ms sample_jws 1700000000123 ''acme'' ''key.pem''
        ''k1'' ''cust'' ''video'' ''test'' ''60'' =
      signReporting sample_ms sample_jws 1700000000123 sample_creator ''k1'' ''cust'' ''video''
        (ExpNum (Fin 60)) (Some ''test'')"
    by (simp_all add: c)
  from u [where e = "''staging''"] x r
  have e: "checkEndpoint ''staging'' = Inl (Error ''Invalid endpoint: staging'')"
    and f: "reporting_url sample_readFile sample_ms sample_jws 1700000000123 ''acme'' ''key.pem''
        ''k1'' ''cust'' ''video'' ''staging'' ''60'' = Inl (Error ''Invalid endpoint: staging'')"
    by simp_all
  show ?thesis
    by (simp only: a b d e f simp_thms)
qed

section \<open>The registry client\<close>

lemma axiosErrorHandler_follows_table: "throws_as err (Inl (axiosErrorHandler this err k))"
  by (simp add: throws_as_def mapped_class_def axiosErrorHandler_def
      new_HivePublicKeyValidationError_def new_HiveAuthorizationError_def
      new_HivePublicKeyNotFoundError_def new_HivePublicKeyDeletedError_def
      split: error.splits option.splits)

lemma create_number:
  "create ms now this partner keyId exponent modulus (ExpNum n) =
     (case axios_post (client this) ''/publickey''
             [(''partnerId'', JStr partner), (''keyId'', JStr keyId),
              (''exponent'', JStr exponent), (''modulus'', JStr modulus),
              (''expiration'', JNum n)] of
        Inr _ \<Rightarrow> Inr ()
      | Inl err \<Rightarrow> Inl (axiosErrorHandler this err (Some keyId)))"
  by (simp add: create_def)






text \<open>
  C10: when the registry answers 404 or 410 to \<open>list\<close> or \<open>delete\<close>, the error thrown is
  built without a key id: its message names the partner and renders the key id as
  \<open>undefined\<close>; \<open>get\<close> and \<open>create\<close> pass the key id they were given.
\<close>

theorem list_delete_errors_lack_key_id:
  assumes "err = AxiosError (Some r)" and "status r = 404 \<or> status r = 410"
  shows
   "(axios_get (client this)
       (''/publickey/'' @ clientPartnerId this @ ''?includeDeleted='' @
        (if includeDeleted then ''true'' else ''false'')) = Inl err \<longrightarrow>
     list_keys this includeDeleted =
       Inl (if status r = 404
            then HivePublicKeyNotFoundError
                   (''Public key not found: '' @ clientPartnerId this @ ''/undefined'')
            else HivePublicKeyDeletedError
                   (''Public key has been deleted: '' @ clientPartnerId this @ ''/undefined''))) \<and>
    (axios_delete (client this) (''/publickey/'' @ clientPartnerId this @ ''/'' @ keyId) = Inl err \<longrightarrow>
     delete this keyId =
       Inl (if status r = 404
            then HivePublicKeyNotFoundError
                   (''Public key not found: '' @ clientPartnerId this @ ''/undefined'')
            else HivePublicKeyDeletedError
                   (''Public key has been deleted: '' @ clientPartnerId this @ ''/undefined''))) \<and>
    (axios_get (client this) (''/publickey/'' @ clientPartnerId this @ ''/'' @ keyId) = Inl err \<longrightarrow>
     get this keyId =
       Inl (if status r = 404
            then HivePublicKeyNotFoundError
                   (''Public key not found: '' @ clientPartnerId this @ ''/'' @ keyId)
            else HivePublicKeyDeletedError
                   (''Public key has been deleted: '' @ clientPartnerId this @ ''/'' @ keyId))) \<and>
    (axios_post (client this) ''/publickey''
       [(''partnerId'', JStr partner), (''keyId'', JStr keyId),
        (''exponent'', JStr exponent), (''modulus'', JStr modulus),
        (''expiration'', JNum n)] = Inl err \<longrightarrow>
     create ms now this partner keyId exponent modulus (ExpNum n) =
       Inl (if status r = 404
            then HivePublicKeyNotFoundError
                   (''Public key not found: '' @ clientPartnerId this @ ''/'' @ keyId)
            else HivePublicKeyDeletedError
                   (''Public key has been deleted: '' @ clientPartnerId this @ ''/'' @ keyId)))"
proof -
  have h: "axiosErrorHandler this err k =
             (if status r = 404
              then HivePublicKeyNotFoundError
                     (''Public key not found: '' @ clientPartnerId this @ ''/'' @ template k)
              else HivePublicKeyDeletedError
                     (''Public key has been deleted: '' @ clientPartnerId this @ ''/'' @ template k))"
    for k
    using assms
    by (auto simp: axiosErrorHandler_def new_HivePublicKeyNotFoundError_def
        new_HivePublicKeyDeletedError_def)
  show ?thesis
    by (simp add: list_keys_def delete_def get_def create_number h template_def)
qed

theorem list_delete_errors_lack_key_id_witness:
  "delete (failing_client (AxiosError (Some \<lparr>data = BOther ''gone'', status = 410\<rparr>))) ''k1'' =
     Inl (HivePublicKeyDeletedError ''Public key has been deleted: acme/undefined'') \<and>
   list_keys (failing_client (AxiosError (Some \<lparr>data = BOther ''gone'', status = 410\<rparr>))) False =
     Inl (HivePublicKeyDeletedError ''Public key has been deleted: acme/undefined'') \<and>
   get (failing_client (AxiosError (Some \<lparr>data = BOther ''gone'', status = 410\<rparr>))) ''k1'' =
     Inl (HivePublicKeyDeletedError ''Public key has been deleted: acme/k1'') \<and>
   create sample_ms 1700000000123
     (failing_client (AxiosError (Some \<lparr>data = BOther ''gone'', status = 410\<rparr>)))
     ''acme'' ''k1'' ''AQAB'' ''xyz'' (ExpNum (Fin 1700007200)) =
     Inl (HivePublicKeyDeletedError ''Public key has been deleted: acme/k1'')"
  using list_delete_errors_lack_key_id
    [where err = "AxiosError (Some \<lparr>data = BOther ''gone'', status = 410\<rparr>)"
       and r = "\<lparr>data = BOther ''gone'', status = 410\<rparr>"
       and this = "failing_client (AxiosError (Some \<lparr>data = BOther ''gone'', status = 410\<rparr>))"
       and keyId = "''k1''" and includeDeleted = False and partner = "''acme''"
       and exponent = "''AQAB''" and modulus = "''xyz''" and n = "Fin 1700007200"
       and ms = sample_ms and now = 1700000000123]
  by (simp add: failing_client_def failing_axios_def)

text \<open>
  C2: when the transport of \<open>get\<close>, \<open>list\<close>, \<open>create\<close> or \<open>delete\<close> fails, the operation
  follows the table of the specification: a response with status 400, 403, 404 or 410
  is thrown as the validation, authorization, not-found or deleted error, whichever the
  operation, and any other failure is thrown again as it is.
\<close>

theorem registry_error_mapping:
  "(axios_get (client this) (''/publickey/'' @ clientPartnerId this @ ''/'' @ keyId) = Inl err \<longrightarrow>
      throws_as err (get this keyId)) \<and>
   (axios_get (client this)
      (''/publickey/'' @ clientPartnerId this @ ''?includeDeleted='' @
       (if includeDeleted then ''true'' else ''false'')) = Inl err \<longrightarrow>
      throws_as err (list_keys this includeDeleted)) \<and>
   ((case expiration of ExpStr s \<Rightarrow> checkExpiration ms now s | ExpNum n \<Rightarrow> Inr n) = Inr v \<and>
    axios_post (client this) ''/publickey''
      [(''partnerId'', JStr partner), (''keyId'', JStr keyId),
       (''exponent'', JStr exponent), (''modulus'', JStr modulus),
       (''expiration'', JNum v)] = Inl err \<longrightarrow>
      throws_as err (create ms now this partner keyId exponent modulus expiration)) \<and>
   (axios_delete (client this) (''/publickey/'' @ clientPartnerId this @ ''/'' @ keyId) = Inl err \<longrightarrow>
      throws_as err (delete this keyId))"
  by (simp add: get_def list_keys_def create_def delete_def axiosErrorHandler_follows_table)

theorem registry_error_mapping_witness:
  "get (failing_client (AxiosError (Some \<lparr>data = BOther ''denied'', status = 403\<rparr>))) ''k1'' =
     Inl (HiveAuthorizationError ''Authorization required: missing or invalid partner token'') \<and>
   list_keys (failing_client (AxiosError (Some \<lparr>data = BOther ''denied'', status = 403\<rparr>))) True =
     Inl (HiveAuthorizationError ''Authorization required: missing or invalid partner token'') \<and>
   create sample_ms 1700000000123
     (failing_client (AxiosError (Some \<lparr>data = BOther ''denied'', status = 403\<rparr>)))
     ''acme'' ''k1'' ''AQAB'' ''xyz'' (ExpStr ''2h'') =
     Inl (HiveAuthorizationError ''Authorization required: missing or invalid partner token'') \<and>
   delete (failing_client (AxiosError (Some \<lparr>data = BOther ''denied'', status = 403\<rparr>))) ''k1'' =
     Inl (HiveAuthorizationError ''Authorization required: missing or invalid partner token'') \<and>
   throws_as (AxiosError (Some \<lparr>data = BOther ''denied'', status = 403\<rparr>))
     (get (failing_client (AxiosError (Some \<lparr>data = BOther ''denied'', status = 403\<rparr>))) ''k1'')"
proof -
  have e: "checkExpiration sample_ms 1700000000123 ''2h'' = Inr (Fin 1700007200)"
    by (rule sample_checkExpiration_2h)
  show ?thesis
    using registry_error_mapping
      [where err = "AxiosError (Some \<lparr>data = BOther ''denied'', status = 403\<rparr>)"
         and this = "failing_client (AxiosError (Some \<lparr>data = BOther ''denied'', status = 403\<rparr>))"
         and keyId = "''k1''" and includeDeleted = True and partner = "''acme''"
         and exponent = "''AQAB''" and modulus = "''xyz''" and expiration = "ExpStr ''2h''"
         and v = "Fin 1700007200" and ms = sample_ms and now = 1700000000123]
    by (simp add: e failing_client_def failing_axios_def get_def list_keys_def create_def
        delete_def axiosErrorHandler_def new_HiveAuthorizationError_def)
qed

end
